theory Spec2Isabelle
  imports Main "HOL-Library.Word"
begin

section \<open>Flag validation of the inspect command\<close>

text \<open>
  \<^verbatim>\<open>Options\<close> of package \<^verbatim>\<open>inspect\<close>. The logger and the OCI client are
  capabilities that flag validation never touches; they are kept as fields of
  arbitrary type.
\<close>

record ('l, 'c) Options =
  ArtifactPath :: string
  BundlePath :: string
  DigestAlgorithm :: string
  JsonResult :: bool
  Verbose :: bool
  Logger :: 'l
  OCIClient :: 'c

text \<open>
  The three errors \<^verbatim>\<open>AreFlagsValid\<close> builds with \<^verbatim>\<open>fmt.Errorf\<close>:
  \<^verbatim>\<open>bundle must be provided\<close>, \<^verbatim>\<open>digest-alg cannot be empty\<close> and
  \<^verbatim>\<open>invalid digest algorithm '%s' provided in digest-alg\<close> (carrying the
  offending algorithm name).
\<close>

datatype flag_error =
  BundleMustBeProvided
  | DigestAlgCannotBeEmpty
  | InvalidDigestAlgorithm string

text \<open>
  Modelled from the spec: \<^verbatim>\<open>digest.IsValidDigestAlgorithm\<close> (package
  \<^verbatim>\<open>artifact/digest\<close>) is called by \<^verbatim>\<open>AreFlagsValid\<close> but its body is not
  part of the sources. The specification describes it as membership in a fixed
  allow-list of algorithm names; the allow-list itself is a parameter here.
\<close>

definition IsValidDigestAlgorithm :: "string list \<Rightarrow> string \<Rightarrow> bool" where
  "IsValidDigestAlgorithm allowed alg = (alg \<in> set allowed)"

text \<open>
  \<^verbatim>\<open>func (opts *Options) AreFlagsValid() error\<close>: the checks in source order,
  \<open>None\<close> for Go's \<^verbatim>\<open>nil\<close>.
\<close>

definition AreFlagsValid :: "string list \<Rightarrow> ('l, 'c) Options \<Rightarrow> flag_error option" where
  "AreFlagsValid allowed opts =
     (if BundlePath opts = [] then Some BundleMustBeProvided
      else if DigestAlgorithm opts = [] then Some DigestAlgCannotBeEmpty
      else if \<not> IsValidDigestAlgorithm allowed (DigestAlgorithm opts)
        then Some (InvalidDigestAlgorithm (DigestAlgorithm opts))
      else None)"

section \<open>Verifying a TUF repository from a local root\<close>

text \<open>
  Go errors. \<open>Wrap msg e\<close> is \<^verbatim>\<open>fmt.Errorf("msg: %w", e)\<close>; \<open>Err msg\<close> is an
  error produced by a capability.
\<close>

datatype error = Err string | Wrap string error

type_synonym bytes = "8 word list"

text \<open>
  The fields of \<^verbatim>\<open>tuf.Options\<close> that \<^verbatim>\<open>verifyTUFRoot\<close> assigns: a byte slice, a
  string and a Go \<^verbatim>\<open>int\<close> (64 bits). The remaining fields of the library's struct
  live in the record's extension slot, which the function leaves as it received
  it.
\<close>

record tuf_options =
  Root :: bytes
  RepositoryBaseURL :: string
  CacheValidity :: "64 word"

text \<open>
  What \<^verbatim>\<open>verifyTUFRoot\<close> calls: \<^verbatim>\<open>os.ReadFile\<close>,
  \<^verbatim>\<open>verification.GitHubTUFOptions\<close> and \<^verbatim>\<open>tuf.New\<close>. None of the three is
  defined in the sources; each is a capability of the environment. \<open>tufNew\<close>
  returns the error of \<^verbatim>\<open>tuf.New\<close> (\<open>None\<close> for \<^verbatim>\<open>nil\<close>); the client it
  builds is discarded by the caller.
\<close>

record 'z tuf_env =
  ReadFile :: "string \<Rightarrow> error + bytes"
  GitHubTUFOptions :: "error + 'z tuf_options_scheme"
  tufNew :: "'z tuf_options_scheme \<Rightarrow> error option"

text \<open>
  \<^verbatim>\<open>func verifyTUFRoot(mirror, root string) error\<close>. The result pairs the
  returned error with the options handed to \<^verbatim>\<open>tuf.New\<close>, in call order: the
  call is the function's only effect besides reading the file.
\<close>

definition verifyTUFRoot ::
  "'z tuf_env \<Rightarrow> string \<Rightarrow> string \<Rightarrow> error option \<times> 'z tuf_options_scheme list" where
  "verifyTUFRoot env mirror root =
     (case ReadFile env root of
        Inl err \<Rightarrow> (Some (Wrap (''failed to read root file '' @ root) err), [])
      | Inr rb \<Rightarrow>
          (case GitHubTUFOptions env of
             Inl err \<Rightarrow> (Some err, [])
           | Inr opts0 \<Rightarrow>
               (let opts1 = opts0\<lparr>Root := rb\<rparr>;
                    opts2 = opts1\<lparr>RepositoryBaseURL := mirror\<rparr>;
                    opts3 = opts2\<lparr>CacheValidity := 0\<rparr>
                in case tufNew env opts3 of
                     Some err \<Rightarrow> (Some (Wrap ''failed to create TUF client'' err), [opts3])
                   | None \<Rightarrow> (None, [opts3]))))"

text \<open>
  Options as \<^verbatim>\<open>verify_test.go\<close> builds them, with the bundle path and the digest
  algorithm left open.
\<close>

definition example_opts :: "string \<Rightarrow> string \<Rightarrow> (unit, unit) Options" where
  "example_opts bundle alg =
     \<lparr>ArtifactPath = ''../test/data/sigstore-js-2.1.0.tgz'', BundlePath = bundle,
      DigestAlgorithm = alg, JsonResult = False, Verbose = False, Logger = (), OCIClient = ()\<rparr>"

text \<open>
  An environment with one root file on disk, default options that carry a cache
  validity of \<open>cached\<close> days, and a \<^verbatim>\<open>tuf.New\<close> that fails whenever caching is
  left enabled.
\<close>

definition example_env :: "64 word \<Rightarrow> unit tuf_env" where
  "example_env cached =
     \<lparr>ReadFile = (\<lambda>p. if p = ''/path/to/1.root.json'' then Inr [123, 125]
                       else Inl (Err ''no such file or directory'')),
      GitHubTUFOptions =
        Inr \<lparr>Root = [], RepositoryBaseURL = ''https://tuf-repo.github.com'', CacheValidity = cached\<rparr>,
      tufNew = (\<lambda>opts. if CacheValidity opts = 0 then None else Some (Err ''served from cache''))\<rparr>"

section \<open>The attestation fetcher\<close>

text \<open>
  \<^verbatim>\<open>LiveClient.GetByRepoAndDigest\<close>, \<^verbatim>\<open>LiveClient.GetByOwnerAndDigest\<close> and the
  pagination loop behind them are called by \<^verbatim>\<open>client_test.go\<close>, but their
  bodies, the REST capability and the mock store of the tests are not part of
  the sources. Every definition of this section is therefore written from
  section 4.2 of the specification and says so.
\<close>

text \<open>
  Modelled from the spec: the two failures of a fetch, \<^verbatim>\<open>ErrNoAttestations\<close>
  (the terminal response holds no record) and the generic error of a transport
  or server failure. Their Go declarations are missing.
\<close>

datatype fetch_error = ErrNoAttestations | FetchError

text \<open>
  Modelled from the spec: the attestation store capability of section 6, whose
  client is missing. One answer of the store is a transport or server failure,
  or a page of records in the order the server sent them.
\<close>

datatype 'a response = Failure | Page "'a list"

text \<open>
  Modelled from the spec: the answers the store serves for one request path, in
  page order. \<open>Next r rest\<close> is an answer \<open>r\<close> that indicates a next page, whose
  answers are \<open>rest\<close>; \<open>Last r\<close> indicates none.
\<close>

datatype 'a served = Last "'a response" | Next "'a response" "'a served"

primrec page_records :: "'a response \<Rightarrow> 'a list" where
  "page_records Failure = []"
| "page_records (Page rs) = rs"

text \<open>Every record the store holds for the request, in server order.\<close>

primrec all_records :: "'a served \<Rightarrow> 'a list" where
  "all_records (Last r) = page_records r"
| "all_records (Next r rest) = page_records r @ all_records rest"

definition totalAvailable :: "'a served \<Rightarrow> nat" where
  "totalAvailable s = length (all_records s)"

text \<open>
  Modelled from the spec: the limit in force inside the missing fetcher, the
  caller's, or the documented default when the caller's is unset (\<open>None\<close>) or
  zero. The value of \<^verbatim>\<open>DefaultLimit\<close> is given by neither the specification nor
  the sources and stays a parameter.
\<close>

definition effective_limit :: "nat \<Rightarrow> nat option \<Rightarrow> nat" where
  "effective_limit defaultLimit limit =
     (case limit of None \<Rightarrow> defaultLimit
      | Some l \<Rightarrow> if l = 0 then defaultLimit else l)"

text \<open>
  Modelled from the spec: the pagination loop of the missing fetcher. Issue the
  request; while the response indicates a next page and the accumulated count
  has not reached the limit, issue the next-page request and append its records.
  \<open>acc\<close> is what has been accumulated before the answer at the head of the
  sequence arrives. The result is the accumulated list together with the
  records of the terminal response, or the failure of a request.
\<close>

fun fetch_pages :: "nat \<Rightarrow> 'a list \<Rightarrow> 'a served \<Rightarrow> fetch_error + ('a list \<times> 'a list)" where
  "fetch_pages lim acc (Last r) =
     (case r of Failure \<Rightarrow> Inl FetchError
      | Page rs \<Rightarrow> Inr (acc @ rs, rs))"
| "fetch_pages lim acc (Next r rest) =
     (case r of Failure \<Rightarrow> Inl FetchError
      | Page rs \<Rightarrow>
          if length (acc @ rs) < lim then fetch_pages lim (acc @ rs) rest
          else Inr (acc @ rs, rs))"

text \<open>
  Modelled from the spec: the final truncation of the accumulated list to the
  limit when the limit is smaller than what was accumulated.
\<close>

definition truncate_to :: "nat \<Rightarrow> 'a list \<Rightarrow> 'a list" where
  "truncate_to lim acc = (if lim < length acc then take lim acc else acc)"

text \<open>
  Modelled from the spec: the missing body shared by the two fetch operations.
  A failed request propagates as the generic error; a terminal response without
  records is \<^verbatim>\<open>ErrNoAttestations\<close>; otherwise the truncated list is returned.
\<close>

definition getAttestations :: "nat \<Rightarrow> nat option \<Rightarrow> 'a served \<Rightarrow> fetch_error + 'a list" where
  "getAttestations defaultLimit limit s =
     (let lim = effective_limit defaultLimit limit in
      case fetch_pages lim [] s of
        Inl e \<Rightarrow> Inl e
      | Inr (acc, terminal) \<Rightarrow>
          if terminal = [] then Inl ErrNoAttestations
          else Inr (truncate_to lim acc))"

text \<open>
  Modelled from the spec: the request path, built from the normalized repository
  or owner identifier and the digest. The builders are missing; \<^verbatim>\<open>TestGetURL\<close>
  shows the normalization, which drops the slashes around the identifier.
\<close>

definition normalize_identifier :: "string \<Rightarrow> string" where
  "normalize_identifier s =
     rev (dropWhile (\<lambda>c. c = CHR ''/'') (rev (dropWhile (\<lambda>c. c = CHR ''/'') s)))"

datatype request_path = RepoDigest string string | OwnerDigest string string

text \<open>
  Modelled from the spec: \<^verbatim>\<open>GetByRepoAndDigest\<close> and \<^verbatim>\<open>GetByOwnerAndDigest\<close>,
  whose bodies are missing. Each builds its request path and runs the shared
  fetch against what the store serves for that path.
\<close>

definition GetByRepoAndDigest ::
  "(request_path \<Rightarrow> 'a served) \<Rightarrow> nat \<Rightarrow> string \<Rightarrow> string \<Rightarrow> nat option \<Rightarrow> fetch_error + 'a list" where
  "GetByRepoAndDigest store defaultLimit repo digest limit =
     getAttestations defaultLimit limit (store (RepoDigest (normalize_identifier repo) digest))"

definition GetByOwnerAndDigest ::
  "(request_path \<Rightarrow> 'a served) \<Rightarrow> nat \<Rightarrow> string \<Rightarrow> string \<Rightarrow> nat option \<Rightarrow> fetch_error + 'a list" where
  "GetByOwnerAndDigest store defaultLimit owner digest limit =
     getAttestations defaultLimit limit (store (OwnerDigest (normalize_identifier owner) digest))"





text \<open>
  Stores shaped like the mock data of \<^verbatim>\<open>client_test.go\<close> (the mock itself is
  missing): one page of \<open>n\<close> attestations, and two pages of \<open>n\<close> each,
  numbered in server order.
\<close>

definition one_page :: "nat \<Rightarrow> nat served" where
  "one_page n = Last (Page [0..<n])"

definition two_pages :: "nat \<Rightarrow> nat served" where
  "two_pages n = Next (Page [0..<n]) (Last (Page [n..<n + n]))"



section \<open>Properties of flag validation\<close>

text \<open>
  Claim C9. Flag validation returns an error when the bundle path is empty, when
  the digest algorithm is empty, or when the digest algorithm is not in the
  allow-list, and returns \<^verbatim>\<open>nil\<close> exactly when all three checks pass. Each
  failing check yields its own error, in source order. The validation looks at
  neither the artifact path nor the OCI client, so it is decided before any
  digest of the artifact is computed.
\<close>

theorem AreFlagsValid_checks:
  "(AreFlagsValid allowed opts = None \<longleftrightarrow>
      BundlePath opts \<noteq> [] \<and> DigestAlgorithm opts \<noteq> [] \<and>
      IsValidDigestAlgorithm allowed (DigestAlgorithm opts))
   \<and> (BundlePath opts = [] \<longrightarrow> AreFlagsValid allowed opts = Some BundleMustBeProvided)
   \<and> (BundlePath opts \<noteq> [] \<and> DigestAlgorithm opts = [] \<longrightarrow>
        AreFlagsValid allowed opts = Some DigestAlgCannotBeEmpty)
   \<and> (BundlePath opts \<noteq> [] \<and> DigestAlgorithm opts \<noteq> [] \<and>
        \<not> IsValidDigestAlgorithm allowed (DigestAlgorithm opts) \<longrightarrow>
        AreFlagsValid allowed opts = Some (InvalidDigestAlgorithm (DigestAlgorithm opts)))
   \<and> AreFlagsValid allowed (opts\<lparr>ArtifactPath := p, OCIClient := c\<rparr>) = AreFlagsValid allowed opts"
  by (simp add: AreFlagsValid_def)

theorem AreFlagsValid_checks_witness:
  "AreFlagsValid [''sha256'', ''sha512''] (example_opts ''bundle.json'' ''sha512'') = None
   \<and> AreFlagsValid [''sha256'', ''sha512''] (example_opts [] ''sha512'') = Some BundleMustBeProvided
   \<and> AreFlagsValid [''sha256'', ''sha512''] (example_opts ''bundle.json'' []) = Some DigestAlgCannotBeEmpty
   \<and> AreFlagsValid [''sha256'', ''sha512''] (example_opts ''bundle.json'' ''md5'')
       = Some (InvalidDigestAlgorithm ''md5'')"
  using AreFlagsValid_checks [of "[''sha256'', ''sha512'']" "example_opts ''bundle.json'' ''sha512''"]
    AreFlagsValid_checks [of "[''sha256'', ''sha512'']" "example_opts [] ''sha512''"]
    AreFlagsValid_checks [of "[''sha256'', ''sha512'']" "example_opts ''bundle.json'' []"]
    AreFlagsValid_checks [of "[''sha256'', ''sha512'']" "example_opts ''bundle.json'' ''md5''"]
  by (simp add: example_opts_def IsValidDigestAlgorithm_def)

section \<open>Properties of the TUF root verification\<close>

lemma verifyTUFRoot_read_failure:
  "ReadFile env root = Inl e \<Longrightarrow>
     verifyTUFRoot env mirror root = (Some (Wrap (''failed to read root file '' @ root) e), [])"
  by (simp add: verifyTUFRoot_def)

lemma verifyTUFRoot_options_failure:
  "ReadFile env root = Inr rb \<Longrightarrow> GitHubTUFOptions env = Inl e \<Longrightarrow>
     verifyTUFRoot env mirror root = (Some e, [])"
  by (simp add: verifyTUFRoot_def)

lemma verifyTUFRoot_call:
  "ReadFile env root = Inr rb \<Longrightarrow> GitHubTUFOptions env = Inr base \<Longrightarrow>
     verifyTUFRoot env mirror root =
       (map_option (Wrap ''failed to create TUF client'')
          (tufNew env (base\<lparr>Root := rb, RepositoryBaseURL := mirror, CacheValidity := 0\<rparr>)),
        [base\<lparr>Root := rb, RepositoryBaseURL := mirror, CacheValidity := 0\<rparr>])"
  by (simp add: verifyTUFRoot_def Let_def split: option.split)

lemma verifyTUFRoot_log:
  assumes "opts \<in> set (snd (verifyTUFRoot env mirror root))"
  shows "CacheValidity opts = 0 \<and> RepositoryBaseURL opts = mirror
    \<and> ReadFile env root = Inr (Root opts)"
proof (cases "ReadFile env root")
  case (Inl e)
  with assms show ?thesis by (simp add: verifyTUFRoot_read_failure)
next
  case (Inr rb)
  show ?thesis
  proof (cases "GitHubTUFOptions env")
    case (Inl e)
    with Inr assms show ?thesis by (simp add: verifyTUFRoot_options_failure)
  next
    case base: (Inr base)
    with Inr assms show ?thesis by (simp add: verifyTUFRoot_call)
  qed
qed

lemma example_env_simps:
  "ReadFile (example_env c) ''/path/to/1.root.json'' = Inr [123, 125]"
  "ReadFile (example_env c) ''missing.json'' = Inl (Err ''no such file or directory'')"
  "GitHubTUFOptions (example_env c)
     = Inr \<lparr>Root = [], RepositoryBaseURL = ''https://tuf-repo.github.com'', CacheValidity = c\<rparr>"
  "tufNew (example_env c) opts
     = (if CacheValidity opts = 0 then None else Some (Err ''served from cache''))"
  by (simp_all add: example_env_def)

text \<open>
  Claim C8. When the root file can be read, \<^verbatim>\<open>verifyTUFRoot\<close> hands \<^verbatim>\<open>tuf.New\<close>
  the contents of exactly that file as root, the given mirror as repository, and
  a cache validity forced to zero: every options value it passes on has these
  three fields, whatever cache validity the default options carried, and the
  outcome does not depend on that default. When the file cannot be read the
  function fails without calling \<^verbatim>\<open>tuf.New\<close>.
\<close>

theorem verifyTUFRoot_forces_no_cache:
  "(\<forall>opts \<in> set (snd (verifyTUFRoot env mirror root)).
       CacheValidity opts = 0 \<and> RepositoryBaseURL opts = mirror \<and> ReadFile env root = Inr (Root opts))
   \<and> (ReadFile env root = Inr rb \<and> GitHubTUFOptions env = Inr base \<longrightarrow>
        snd (verifyTUFRoot env mirror root)
          = [base\<lparr>Root := rb, RepositoryBaseURL := mirror, CacheValidity := 0\<rparr>]
        \<and> fst (verifyTUFRoot env mirror root)
          = map_option (Wrap ''failed to create TUF client'')
              (tufNew env (base\<lparr>Root := rb, RepositoryBaseURL := mirror, CacheValidity := 0\<rparr>))
        \<and> verifyTUFRoot (env\<lparr>GitHubTUFOptions := Inr (base\<lparr>CacheValidity := n\<rparr>)\<rparr>) mirror root
          = verifyTUFRoot env mirror root)
   \<and> (ReadFile env root = Inl e \<longrightarrow>
        verifyTUFRoot env mirror root = (Some (Wrap (''failed to read root file '' @ root) e), []))"
proof (intro conjI ballI impI)
  fix opts assume "opts \<in> set (snd (verifyTUFRoot env mirror root))"
  from verifyTUFRoot_log [OF this]
  show "CacheValidity opts = 0" "RepositoryBaseURL opts = mirror" "ReadFile env root = Inr (Root opts)"
    by simp_all
next
  assume a: "ReadFile env root = Inr rb \<and> GitHubTUFOptions env = Inr base"
  then show "snd (verifyTUFRoot env mirror root)
          = [base\<lparr>Root := rb, RepositoryBaseURL := mirror, CacheValidity := 0\<rparr>]"
    by (simp add: verifyTUFRoot_call)
  from a show "fst (verifyTUFRoot env mirror root)
          = map_option (Wrap ''failed to create TUF client'')
              (tufNew env (base\<lparr>Root := rb, RepositoryBaseURL := mirror, CacheValidity := 0\<rparr>))"
    by (simp add: verifyTUFRoot_call)
  from a have "verifyTUFRoot (env\<lparr>GitHubTUFOptions := Inr (base\<lparr>CacheValidity := n\<rparr>)\<rparr>) mirror root
      = (map_option (Wrap ''failed to create TUF client'')
          (tufNew env (base\<lparr>Root := rb, RepositoryBaseURL := mirror, CacheValidity := 0\<rparr>)),
        [base\<lparr>Root := rb, RepositoryBaseURL := mirror, CacheValidity := 0\<rparr>])"
    by (simp add: verifyTUFRoot_call [where rb = rb and base = "base\<lparr>CacheValidity := n\<rparr>"])
  with a show "verifyTUFRoot (env\<lparr>GitHubTUFOptions := Inr (base\<lparr>CacheValidity := n\<rparr>)\<rparr>) mirror root
          = verifyTUFRoot env mirror root"
    by (simp add: verifyTUFRoot_call)
next
  assume "ReadFile env root = Inl e"
  then show "verifyTUFRoot env mirror root = (Some (Wrap (''failed to read root file '' @ root) e), [])"
    by (rule verifyTUFRoot_read_failure)
qed

theorem verifyTUFRoot_forces_no_cache_witness:
  "snd (verifyTUFRoot (example_env 1) ''https://tuf-repo.github.com'' ''/path/to/1.root.json'')
     = [\<lparr>Root = [123, 125], RepositoryBaseURL = ''https://tuf-repo.github.com'', CacheValidity = 0\<rparr>]
   \<and> fst (verifyTUFRoot (example_env 1) ''https://tuf-repo.github.com'' ''/path/to/1.root.json'') = None
   \<and> verifyTUFRoot (example_env 1) ''https://tuf-repo.github.com'' ''missing.json''
     = (Some (Wrap ''failed to read root file missing.json'' (Err ''no such file or directory'')), [])"
proof -
  let ?base = "\<lparr>Root = [], RepositoryBaseURL = ''https://tuf-repo.github.com'', CacheValidity = 1\<rparr>"
  let ?m = "''https://tuf-repo.github.com''"
  have ok: "ReadFile (example_env 1) ''/path/to/1.root.json'' = Inr [123, 125]
      \<and> GitHubTUFOptions (example_env 1) = Inr ?base"
    by (simp add: example_env_simps)
  have missing: "ReadFile (example_env 1) ''missing.json'' = Inl (Err ''no such file or directory'')"
    by (simp add: example_env_simps)
  note found = verifyTUFRoot_forces_no_cache [of "example_env 1" ?m "''/path/to/1.root.json''"
      "[123, 125]" ?base 1 "Err ''no such file or directory''", THEN conjunct2, THEN conjunct1,
      THEN mp, OF ok]
  note absent = verifyTUFRoot_forces_no_cache [of "example_env 1" ?m "''missing.json''"
      "[]" ?base 1 "Err ''no such file or directory''", THEN conjunct2, THEN conjunct2,
      THEN mp, OF missing]
  from found have a: "snd (verifyTUFRoot (example_env 1) ?m ''/path/to/1.root.json'')
      = [\<lparr>Root = [123, 125], RepositoryBaseURL = ?m, CacheValidity = 0\<rparr>]"
    by simp
  from found have b: "fst (verifyTUFRoot (example_env 1) ?m ''/path/to/1.root.json'') = None"
    by (simp add: example_env_simps)
  from absent have c: "verifyTUFRoot (example_env 1) ?m ''missing.json''
     = (Some (Wrap ''failed to read root file missing.json'' (Err ''no such file or directory'')), [])"
    by simp
  from a b c show ?thesis by blast
qed

section \<open>Properties of the attestation fetcher\<close>

text \<open>
  The loop invariant: up to the limit, what the loop has accumulated when it
  stops is what the store holds, in the same order.
\<close>

lemma fetch_pages_take:
  "fetch_pages lim acc s = Inr (acc', t) \<Longrightarrow> take lim acc' = take lim (acc @ all_records s)"
proof (induction s arbitrary: acc)
  case (Last r)
  then show ?case by (cases r) auto
next
  case (Next r rest)
  show ?case
  proof (cases r)
    case Failure
    with Next.prems show ?thesis by simp
  next
    case (Page rs)
    show ?thesis
    proof (cases "length (acc @ rs) < lim")
      case True
      with Next.prems Page have "fetch_pages lim (acc @ rs) rest = Inr (acc', t)" by simp
      from Next.IH [OF this] Page show ?thesis by simp
    next
      case False
      with Next.prems Page have "acc' = acc @ rs" by auto
      with False Page show ?thesis by simp
    qed
  qed
qed




lemma truncate_to_take: "truncate_to lim acc = take lim acc"
  by (simp add: truncate_to_def)

lemma getAttestations_success:
  "getAttestations dl limit s = Inr xs \<Longrightarrow> xs = take (effective_limit dl limit) (all_records s)"
  by (auto simp: getAttestations_def Let_def truncate_to_take
      split: sum.splits prod.splits if_splits dest: fetch_pages_take)

lemma getAttestations_length:
  assumes "getAttestations dl limit s = Inr xs"
  shows "length xs = min (effective_limit dl limit) (totalAvailable s)"
  using getAttestations_success [OF assms] by (simp add: totalAvailable_def)



lemma effective_limit_cases:
  "0 < L \<Longrightarrow> effective_limit dl (Some L) = L"
  "effective_limit dl (Some 0) = dl"
  "effective_limit dl None = dl"
  by (simp_all add: effective_limit_def)

text \<open>The scenarios of \<^verbatim>\<open>client_test.go\<close>, evaluated.\<close>

lemma two_pages_fetch_7:
  "getAttestations 30 (Some 7) (two_pages 5) = Inr [0, 1, 2, 3, 4, 5, 6]"
  by code_simp

lemma one_page_fetch_3:
  "getAttestations 30 (Some 3) (one_page 5) = Inr [0, 1, 2]"
  by code_simp

lemma two_pages_fetch_default:
  "getAttestations 30 None (two_pages 5) = Inr [0, 1, 2, 3, 4, 5, 6, 7, 8, 9]"
  by code_simp

lemma two_pages_total: "totalAvailable (two_pages 5) = 10"
  by code_simp





text \<open>
  Claim C2. For a limit \<open>L > 0\<close>, a fetch by repository or by owner that
  succeeds returns at most \<open>min L totalAvailable\<close> records, and exactly \<open>L\<close>
  whenever the store holds at least \<open>L\<close>, wherever in a page the limit falls.
  With the limit unset or zero the default limit bounds the result in the same
  way.
\<close>

theorem fetch_result_within_limit:
  "(0 < L \<and> GetByRepoAndDigest store dl repo d (Some L) = Inr xs \<longrightarrow>
      length xs \<le> min L (totalAvailable (store (RepoDigest (normalize_identifier repo) d)))
      \<and> (L \<le> totalAvailable (store (RepoDigest (normalize_identifier repo) d)) \<longrightarrow> length xs = L))
   \<and> (0 < L \<and> GetByOwnerAndDigest store dl owner d (Some L) = Inr ys \<longrightarrow>
      length ys \<le> min L (totalAvailable (store (OwnerDigest (normalize_identifier owner) d)))
      \<and> (L \<le> totalAvailable (store (OwnerDigest (normalize_identifier owner) d)) \<longrightarrow> length ys = L))
   \<and> ((limit = None \<or> limit = Some 0) \<and> GetByRepoAndDigest store dl repo d limit = Inr xs' \<longrightarrow>
      length xs' \<le> min dl (totalAvailable (store (RepoDigest (normalize_identifier repo) d))))
   \<and> ((limit = None \<or> limit = Some 0) \<and> GetByOwnerAndDigest store dl owner d limit = Inr ys' \<longrightarrow>
      length ys' \<le> min dl (totalAvailable (store (OwnerDigest (normalize_identifier owner) d))))"
proof (intro conjI impI)
  assume a: "0 < L \<and> GetByRepoAndDigest store dl repo d (Some L) = Inr xs"
  then have "getAttestations dl (Some L) (store (RepoDigest (normalize_identifier repo) d)) = Inr xs"
    by (simp add: GetByRepoAndDigest_def)
  from getAttestations_length [OF this] a
  have "length xs = min L (totalAvailable (store (RepoDigest (normalize_identifier repo) d)))"
    by (simp add: effective_limit_cases)
  then show "length xs \<le> min L (totalAvailable (store (RepoDigest (normalize_identifier repo) d)))"
    and "L \<le> totalAvailable (store (RepoDigest (normalize_identifier repo) d)) \<Longrightarrow> length xs = L"
    by simp_all
next
  assume a: "0 < L \<and> GetByOwnerAndDigest store dl owner d (Some L) = Inr ys"
  then have "getAttestations dl (Some L) (store (OwnerDigest (normalize_identifier owner) d)) = Inr ys"
    by (simp add: GetByOwnerAndDigest_def)
  from getAttestations_length [OF this] a
  have "length ys = min L (totalAvailable (store (OwnerDigest (normalize_identifier owner) d)))"
    by (simp add: effective_limit_cases)
  then show "length ys \<le> min L (totalAvailable (store (OwnerDigest (normalize_identifier owner) d)))"
    and "L \<le> totalAvailable (store (OwnerDigest (normalize_identifier owner) d)) \<Longrightarrow> length ys = L"
    by simp_all
next
  assume a: "(limit = None \<or> limit = Some 0) \<and> GetByRepoAndDigest store dl repo d limit = Inr xs'"
  then have "effective_limit dl limit = dl" by (auto simp: effective_limit_cases)
  moreover from a
  have "getAttestations dl limit (store (RepoDigest (normalize_identifier repo) d)) = Inr xs'"
    by (simp add: GetByRepoAndDigest_def)
  from getAttestations_length [OF this]
  have "length xs' = min (effective_limit dl limit)
      (totalAvailable (store (RepoDigest (normalize_identifier repo) d)))" .
  ultimately
  show "length xs' \<le> min dl (totalAvailable (store (RepoDigest (normalize_identifier repo) d)))"
    by simp
next
  assume a: "(limit = None \<or> limit = Some 0) \<and> GetByOwnerAndDigest store dl owner d limit = Inr ys'"
  then have "effective_limit dl limit = dl" by (auto simp: effective_limit_cases)
  moreover from a
  have "getAttestations dl limit (store (OwnerDigest (normalize_identifier owner) d)) = Inr ys'"
    by (simp add: GetByOwnerAndDigest_def)
  from getAttestations_length [OF this]
  have "length ys' = min (effective_limit dl limit)
      (totalAvailable (store (OwnerDigest (normalize_identifier owner) d)))" .
  ultimately
  show "length ys' \<le> min dl (totalAvailable (store (OwnerDigest (normalize_identifier owner) d)))"
    by simp
qed

theorem fetch_result_within_limit_witness:
  "GetByRepoAndDigest (\<lambda>_. two_pages 5) 30 ''github/example'' ''sha256:12313213'' (Some 7)
     = Inr [0, 1, 2, 3, 4, 5, 6]
   \<and> length [0, 1, 2, 3, 4, 5, 6 :: nat] = 7
   \<and> 7 \<le> totalAvailable (two_pages 5)
   \<and> GetByOwnerAndDigest (\<lambda>_. one_page 5) 30 ''github'' ''sha256:12313213'' (Some 3) = Inr [0, 1, 2]
   \<and> GetByRepoAndDigest (\<lambda>_. two_pages 5) 30 ''github/example'' ''sha256:12313213'' None
     = Inr [0, 1, 2, 3, 4, 5, 6, 7, 8, 9]
   \<and> length [0, 1, 2, 3, 4, 5, 6, 7, 8, 9 :: nat] \<le> min 30 (totalAvailable (two_pages 5))"
proof -
  let ?store = "\<lambda>_ :: request_path. two_pages 5"
  have r7: "0 < (7::nat) \<and> GetByRepoAndDigest ?store 30 ''github/example'' ''sha256:12313213'' (Some 7)
      = Inr [0, 1, 2, 3, 4, 5, 6]"
    by (simp add: GetByRepoAndDigest_def two_pages_fetch_7)
  have rd: "((None :: nat option) = None \<or> (None :: nat option) = Some 0)
      \<and> GetByRepoAndDigest ?store 30 ''github/example'' ''sha256:12313213'' None
      = Inr [0, 1, 2, 3, 4, 5, 6, 7, 8, 9]"
    by (simp add: GetByRepoAndDigest_def two_pages_fetch_default)
  have o3: "GetByOwnerAndDigest (\<lambda>_. one_page 5) 30 ''github'' ''sha256:12313213'' (Some 3)
      = Inr [0, 1, 2]"
    by (simp add: GetByOwnerAndDigest_def one_page_fetch_3)
  note t = fetch_result_within_limit [of 7 ?store 30 "''github/example''" "''sha256:12313213''"
      "[0, 1, 2, 3, 4, 5, 6]" "''github''" "[]" None "[0, 1, 2, 3, 4, 5, 6, 7, 8, 9]" "[]"]
  from t [THEN conjunct1, THEN mp, OF r7]
  have a: "7 \<le> totalAvailable (two_pages 5) \<longrightarrow> length [0, 1, 2, 3, 4, 5, 6 :: nat] = 7"
    by simp
  have b: "7 \<le> totalAvailable (two_pages 5)" by (simp add: two_pages_total)
  from t [THEN conjunct2, THEN conjunct2, THEN conjunct1, THEN mp, OF rd]
  have c: "length [0, 1, 2, 3, 4, 5, 6, 7, 8, 9 :: nat] \<le> min 30 (totalAvailable (two_pages 5))" .
  from a b c r7 rd o3 show ?thesis by blast
qed












end
